theory Spec2Isabelle
  imports Main "HOL-Library.AList" "HOL-Library.Sublist"
begin

section \<open>The client's event vocabulary and hook state (src/lib/types.ts)\<close>

text \<open>
  The union \<open>intent: 'chat' | 'code'\<close> and the \<open>type\<close> tag of a conversation message.
\<close>

datatype intent = Chat | Code

datatype message_type = User_prompt | Chat_response | Progress | Narrative

text \<open>
  \<open>ConversationMessage\<close>: the fields \<open>id\<close>, \<open>type\<close>, \<open>content\<close>, \<open>timestamp\<close>, prefixed
  here because \<open>id\<close> is the identity function of HOL.
\<close>

record ConversationMessage =
  msg_id :: string
  msg_type :: message_type
  msg_content :: string
  msg_timestamp :: nat

text \<open>
  \<open>AgentStreamEvent\<close>: one constructor per member of the union, in the order of the
  declaration, with the variant's fields in the order they are declared. The optional
  fields of \<open>code.completed\<close> are options.
\<close>

datatype AgentStreamEvent =
    Pipeline_started
  | Intent_classified intent
  | Chat_chunk string
  | Design_started
  | Design_phase string
  | Design_completed "string list"
  | Code_started
  | Code_file_started string
  | Code_chunk string string
  | Code_completed "nat option" "string option"
  | File_create string
  | File_chunk string string
  | File_narrative string string
  | File_complete string
  | Pipeline_completed

text \<open>The discriminant \<open>event\<close> of each member of the union.\<close>

fun event_name :: "AgentStreamEvent \<Rightarrow> string" where
  "event_name Pipeline_started = ''pipeline.started''"
| "event_name (Intent_classified i) = ''intent.classified''"
| "event_name (Chat_chunk c) = ''chat.chunk''"
| "event_name Design_started = ''design.started''"
| "event_name (Design_phase d) = ''design.phase''"
| "event_name (Design_completed fs) = ''design.completed''"
| "event_name Code_started = ''code.started''"
| "event_name (Code_file_started f) = ''code.file_started''"
| "event_name (Code_chunk c f) = ''code.chunk''"
| "event_name (Code_completed n e) = ''code.completed''"
| "event_name (File_create p) = ''file.create''"
| "event_name (File_chunk p c) = ''file.chunk''"
| "event_name (File_narrative p n) = ''file.narrative''"
| "event_name (File_complete p) = ''file.complete''"
| "event_name Pipeline_completed = ''pipeline.completed''"

definition agent_event_names :: "string list" where
  "agent_event_names =
     [''pipeline.started'', ''intent.classified'', ''chat.chunk'', ''design.started'',
      ''design.phase'', ''design.completed'', ''code.started'', ''code.file_started'',
      ''code.chunk'', ''code.completed'', ''file.create'', ''file.chunk'',
      ''file.narrative'', ''file.complete'', ''pipeline.completed'']"


text \<open>
  \<open>AgentState\<close>. A narrative block is \<open>{id, type: 'narrative', content}\<close>; the constant
  tag is left out. \<open>files\<close> is a JavaScript \<open>Map\<close>: an association list in insertion
  order, written with \<open>AList.update\<close>, which replaces the value of a key in place and
  appends a new key at the end, as \<open>Map.set\<close> does.
\<close>

record NarrativeBlock =
  block_id :: nat
  block_content :: string

record AgentState =
  isStreaming :: bool
  intent :: "intent option"
  conversationHistory :: "ConversationMessage list"
  currentChatMessage :: string
  currentProgress :: "string option"
  narrativeBlocks :: "NarrativeBlock list"
  files :: "(string \<times> string) list"
  error :: "string option"
  activeFile :: "string option"

definition initialState :: AgentState where
  "initialState =
     \<lparr> isStreaming = False, intent = None, conversationHistory = [],
       currentChatMessage = [], currentProgress = None, narrativeBlocks = [],
       files = [], error = None, activeFile = None \<rparr>"

section \<open>The hook \<open>useAgent\<close> (hooks/use-agent.ts)\<close>

text \<open>
  Decimal rendering of a number inside a template literal
  (\<open>`msg-${Date.now()}`\<close>).
\<close>

fun dec :: "nat \<Rightarrow> string" where
  "dec n = (if n < 10 then [char_of (48 + n)]
            else dec (n div 10) @ [char_of (48 + n mod 10)])"

declare dec.simps [simp del]

text \<open>\<open>updatedFiles.get(file) || ''\<close>: a missing key reads as the empty string.\<close>

definition get_or_empty :: "(string \<times> string) list \<Rightarrow> string \<Rightarrow> string" where
  "get_or_empty m k = (case map_of m k of None \<Rightarrow> [] | Some v \<Rightarrow> v)"

text \<open>
  The state updater passed to \<open>setState\<close> for one decoded event: the \<open>switch\<close> on
  \<open>event.event\<close>. \<open>now\<close> is the value of \<open>Date.now()\<close> when the updater runs (an updater that
  reads the clock for an id and again for a timestamp gets the one value), \<open>rid\<close> the
  local \<open>currentResponseId\<close>; the second component of the state pair is the local
  \<open>accumulatedResponse\<close>, which the updater of \<open>chat.chunk\<close> extends. The four members
  of the union that have no \<open>case\<close> fall through the switch, which has no \<open>default\<close>: the
  updater returns a copy of the previous state.
\<close>

fun apply_event ::
  "nat \<Rightarrow> string \<Rightarrow> AgentStreamEvent \<Rightarrow> AgentState \<times> string \<Rightarrow> AgentState \<times> string" where
  "apply_event now rid (Intent_classified i) (s, acc) = (s\<lparr>intent := Some i\<rparr>, acc)"
| "apply_event now rid (Chat_chunk c) (s, acc) =
     (if intent s = Some Chat
      then (s\<lparr>currentChatMessage := currentChatMessage s @ c\<rparr>, acc @ c)
      else (s, acc))"
| "apply_event now rid (Design_phase details) (s, acc) =
     (if intent s = Some Code
      then (if find (\<lambda>m. msg_id m = ''progress-'' @ details) (conversationHistory s) = None
            then s\<lparr>currentProgress := Some details,
                   conversationHistory := conversationHistory s @
                     [\<lparr>msg_id = ''progress-'' @ dec now, msg_type = Progress,
                       msg_content = details, msg_timestamp = now\<rparr>]\<rparr>
            else s\<lparr>currentProgress := Some details\<rparr>, acc)
      else (s, acc))"
| "apply_event now rid (Design_completed fs) (s, acc) =
     (if intent s = Some Code
      then (s\<lparr>currentProgress := Some ''Design complete, generating code...''\<rparr>, acc)
      else (s, acc))"
| "apply_event now rid Code_started (s, acc) =
     (if intent s = Some Code
      then (s\<lparr>currentProgress := Some ''Generating code...''\<rparr>, acc)
      else (s, acc))"
| "apply_event now rid (Code_file_started f) (s, acc) =
     (s\<lparr>files := AList.update f [] (files s), activeFile := Some f\<rparr>, acc)"
| "apply_event now rid (Code_chunk c f) (s, acc) =
     (s\<lparr>files := AList.update f (get_or_empty (files s) f @ c) (files s)\<rparr>, acc)"
| "apply_event now rid (File_create p) (s, acc) =
     (s\<lparr>files := AList.update p [] (files s), activeFile := Some p\<rparr>, acc)"
| "apply_event now rid (File_chunk p c) (s, acc) =
     (s\<lparr>files := AList.update p (get_or_empty (files s) p @ c) (files s)\<rparr>, acc)"
| "apply_event now rid (File_narrative p n) (s, acc) =
     (if intent s = Some Code
      then (s\<lparr>narrativeBlocks := narrativeBlocks s @
                  [\<lparr>block_id = length (narrativeBlocks s), block_content = n\<rparr>],
               conversationHistory := conversationHistory s @
                  [\<lparr>msg_id = ''narrative-'' @ dec now @ ''-'' @ dec (length (narrativeBlocks s)),
                    msg_type = Narrative, msg_content = n, msg_timestamp = now\<rparr>]\<rparr>, acc)
      else (s, acc))"
| "apply_event now rid Pipeline_completed (s, acc) =
     (if intent s = Some Chat \<and> acc \<noteq> []
      then (s\<lparr>activeFile := None, currentProgress := None,
               conversationHistory := conversationHistory s @
                 [\<lparr>msg_id = rid, msg_type = Chat_response,
                   msg_content = acc, msg_timestamp = now\<rparr>]\<rparr>, acc)
      else (s\<lparr>activeFile := None, currentProgress := None\<rparr>, acc))"
| "apply_event now rid Pipeline_started (s, acc) = (s, acc)"
| "apply_event now rid Design_started (s, acc) = (s, acc)"
| "apply_event now rid (Code_completed n e) (s, acc) = (s, acc)"
| "apply_event now rid (File_complete p) (s, acc) = (s, acc)"

text \<open>The labels of the switch, in the order of its cases.\<close>

definition case_labels :: "string list" where
  "case_labels =
     [''intent.classified'', ''chat.chunk'', ''design.phase'', ''design.completed'',
      ''code.started'', ''code.file_started'', ''code.chunk'', ''file.create'',
      ''file.chunk'', ''file.narrative'', ''pipeline.completed'']"

text \<open>
  \<open>JSON.parse(data)\<close> is cast to \<open>AgentStreamEvent\<close> without any check, so the switch
  also meets objects whose \<open>event\<close> property is a string outside the union:
  \<open>Untyped d\<close> is such an object with \<open>event = d\<close>. No case label matches it and the
  updater returns the previous state.
\<close>

datatype decoded = Typed AgentStreamEvent | Untyped string

fun discriminant :: "decoded \<Rightarrow> string" where
  "discriminant (Typed e) = event_name e"
| "discriminant (Untyped d) = d"

fun on_event :: "nat \<Rightarrow> string \<Rightarrow> decoded \<Rightarrow> AgentState \<times> string \<Rightarrow> AgentState \<times> string" where
  "on_event now rid (Typed e) st = apply_event now rid e st"
| "on_event now rid (Untyped d) st = st"

text \<open>
  \<open>buffer.split('\n\n')\<close>: the pieces between the leftmost non-overlapping occurrences
  of two line feeds; the result always has a last piece, which \<open>lines.pop()\<close> takes back
  as the new buffer.
\<close>

definition nl :: char where
  "nl = CHR 0x0A"

fun split_frames :: "string \<Rightarrow> string \<Rightarrow> string list" where
  "split_frames cur (a # b # rest) =
     (if a = nl \<and> b = nl then cur # split_frames [] rest
      else split_frames (cur @ [a]) (b # rest))"
| "split_frames cur rest = [cur @ rest]"

text \<open>
  One line of the loop \<open>for (const line of lines)\<close>. \<open>parse\<close> stands for \<open>JSON.parse\<close>
  followed by the cast: \<open>None\<close> when it throws, which the inner \<open>catch\<close> only logs.
\<close>

definition process_line ::
  "(string \<Rightarrow> decoded option) \<Rightarrow> nat \<Rightarrow> string \<Rightarrow> string \<Rightarrow>
     AgentState \<times> string \<Rightarrow> AgentState \<times> string" where
  "process_line parse now rid line st =
     (if prefix ''data: '' line
      then (case parse (drop 6 line) of None \<Rightarrow> st | Some ev \<Rightarrow> on_event now rid ev st)
      else st)"

text \<open>
  One round of the \<open>while (true)\<close> loop after a successful \<open>reader.read()\<close>: the chunk
  (received at time \<open>now\<close>) is appended to the buffer, the buffer is split, its last
  piece is kept and the other pieces are processed in order.
\<close>

record stream_locals =
  hook :: AgentState
  accumulatedResponse :: string
  buffer :: string

definition on_chunk ::
  "(string \<Rightarrow> decoded option) \<Rightarrow> string \<Rightarrow> stream_locals \<Rightarrow> nat \<times> string \<Rightarrow> stream_locals" where
  "on_chunk parse rid l chunk =
     (let lines = split_frames [] (buffer l @ snd chunk);
          st = foldl (\<lambda>st line. process_line parse (fst chunk) rid line st)
                 (hook l, accumulatedResponse l) (butlast lines)
      in \<lparr>hook = fst st, accumulatedResponse = snd st, buffer = last lines\<rparr>)"

text \<open>
  What the network does during one call: \<open>fetch\<close> rejects; the response has no body;
  or the response arrives at time \<open>t\<close> and its body delivers the chunks \<open>cs\<close> (each with
  the time of its arrival) and then ends, with \<open>done\<close> when the flag is \<open>True\<close> and with a
  rejected \<open>read()\<close> otherwise. A body that never ends is a call that never returns.
\<close>

datatype fetch_outcome =
    Fetch_failed
  | No_body
  | Body nat "(nat \<times> string) list" bool

text \<open>
  \<open>sendMessage\<close>, called at time \<open>now\<close>: the first \<open>setState\<close>, the \<open>try\<close> block with its
  \<open>catch\<close>, and the \<open>finally\<close> block. The updaters run in the order they were queued, so
  the state after the call is their composition.
\<close>

definition connect_error :: string where
  "connect_error = ''Failed to connect to the agent service.''"

definition user_prompt :: "nat \<Rightarrow> string \<Rightarrow> ConversationMessage" where
  "user_prompt now message =
     \<lparr>msg_id = ''msg-'' @ dec now, msg_type = User_prompt,
      msg_content = message, msg_timestamp = now\<rparr>"

definition begin_send :: "nat \<Rightarrow> string \<Rightarrow> AgentState \<Rightarrow> AgentState" where
  "begin_send now message s =
     s\<lparr>isStreaming := True,
       conversationHistory := conversationHistory s @ [user_prompt now message],
       currentChatMessage := [],
       currentProgress := None\<rparr>"

definition try_stream ::
  "(string \<Rightarrow> decoded option) \<Rightarrow> fetch_outcome \<Rightarrow> AgentState \<Rightarrow> AgentState" where
  "try_stream parse net s =
     (case net of
        Fetch_failed \<Rightarrow> s\<lparr>error := Some connect_error\<rparr>
      | No_body \<Rightarrow> s
      | Body t cs ended \<Rightarrow>
          (let l = foldl (on_chunk parse (''response-'' @ dec t))
                     \<lparr>hook = s, accumulatedResponse = [], buffer = []\<rparr> cs
           in if ended then hook l else (hook l)\<lparr>error := Some connect_error\<rparr>))"

definition sendMessage ::
  "(string \<Rightarrow> decoded option) \<Rightarrow> nat \<Rightarrow> string \<Rightarrow> fetch_outcome \<Rightarrow> AgentState \<Rightarrow> AgentState" where
  "sendMessage parse now message net s =
     (try_stream parse net (begin_send now message s))\<lparr>isStreaming := False\<rparr>"

section \<open>File capture and persistence of the orchestrator (backend/server/orchestrator.py)\<close>

text \<open>
  The orchestrator handles events as Python dictionaries and reads them with
  \<open>event.get\<close>; the properties read here (\<open>event\<close>, \<open>file\<close>, \<open>content\<close>, \<open>path\<close>) hold
  strings, so an event is an association list from property names to strings and
  \<open>event.get(k)\<close> is \<open>map_of event k\<close>, \<open>None\<close> for a missing property.
\<close>

type_synonym event_dict = "(string \<times> string) list"

text \<open>
  The capture of one forwarded event into \<open>file_contents\<close>:
  \<^verbatim>\<open>
  if event.get("event") == "code.chunk":
      file_path = event.get("file")
      content = event.get("content", "")
      if file_path:
          file_contents[file_path] = file_contents.get(file_path, "") + content
  \<close>
  \<open>if file_path:\<close> is false for a missing property and for the empty string.
  \<open>file_contents\<close> is a Python dictionary: insertion order, written with \<open>AList.update\<close>.
\<close>

definition chunk_text :: "event_dict \<Rightarrow> string" where
  "chunk_text event = (case map_of event ''content'' of None \<Rightarrow> [] | Some c \<Rightarrow> c)"

definition capture :: "(string \<times> string) list \<Rightarrow> event_dict \<Rightarrow> (string \<times> string) list" where
  "capture file_contents event =
     (if map_of event ''event'' = Some ''code.chunk''
      then (case map_of event ''file'' of
              None \<Rightarrow> file_contents
            | Some file_path \<Rightarrow>
                if file_path \<noteq> []
                then AList.update file_path
                       (get_or_empty file_contents file_path @ chunk_text event) file_contents
                else file_contents)
      else file_contents)"









definition code_chunk :: "string \<Rightarrow> string \<Rightarrow> event_dict" where
  "code_chunk file_path text =
     [(''event'', ''code.chunk''), (''content'', text), (''file'', file_path)]"


section \<open>The pipeline of the orchestrator (backend/server/orchestrator.py)\<close>

text \<open>
  \<open>run_agent_pipeline(request)\<close> reads two fields of the request:
  \<open>project_id = request.project_id\<close> and \<open>user_message = request.message\<close>.
\<close>

record request =
  project_id :: string
  user_message :: string
























section \<open>The streaming endpoint (backend/server/main.py)\<close>

text \<open>
  The endpoint \<open>POST /api/agent/stream\<close>:
  \<^verbatim>\<open>
  allowed, message = rate_limiter.is_allowed(client_ip)
  if not allowed:
      return JSONResponse(status_code=429,
          content={"error": "Rate limit exceeded", "message": message, "retry_after": 60})
  return StreamingResponse(agent_event_stream(request), ...)
  \<close>
  The rate limiter and the event stream are collaborators, taken as parameters:
  \<open>is_allowed\<close> reads and updates the limiter's state \<open>lim\<close>.
\<close>

datatype 'stream response =
    JSONResponse (status_code: nat) (error_text: string) (message_text: string) (retry_after: int)
  | StreamingResponse 'stream

definition agent_stream_endpoint ::
  "(string \<Rightarrow> 'lim \<Rightarrow> (bool \<times> string) \<times> 'lim) \<Rightarrow> ('request \<Rightarrow> 'stream) \<Rightarrow>
     'request \<Rightarrow> string \<Rightarrow> 'lim \<Rightarrow> 'stream response \<times> 'lim" where
  "agent_stream_endpoint is_allowed agent_event_stream request client_ip lim =
     (case is_allowed client_ip lim of
        ((allowed, message), lim') \<Rightarrow>
          if \<not> allowed
          then (JSONResponse 429 ''Rate limit exceeded'' message 60, lim')
          else (StreamingResponse (agent_event_stream request), lim'))"

section \<open>The admission controller (section 4.1 of the specification)\<close>

text \<open>
  Modelled from the spec: the rate limiter \<open>backend/server/rate_limiter.py\<close>
  (\<open>is_allowed\<close>) is not among the sources, only its caller and its description are.
  What follows is the fixed-window algorithm of section 4.1, in its words. A
  \<open>RateBucket\<close> holds, per identity, a minute window and an hour window, each a count
  and a window start. Times are seconds.
\<close>

record window =
  count :: nat
  windowStart :: int

record RateBucket =
  minute :: window
  hour :: window

text \<open>
  Modelled from the spec: the two independently configured limits, N per minute window
  and M per hour window, with the lengths of the windows (60 and 3600 seconds in the
  specification's example).
\<close>

record limits =
  minute_limit :: nat
  minute_length :: int
  hour_limit :: nat
  hour_length :: int

text \<open>
  Modelled from the spec: the result of \<open>check\<close>, \<open>Allow | Deny(retryAfterSeconds)\<close>.
\<close>

datatype decision = Allow | Deny int

text \<open>
  Modelled from the spec: on a check, if \<open>now - windowStart >= windowLength\<close>, the
  window is reset to \<open>count = 0, windowStart = now\<close> before evaluating.
\<close>

definition refresh :: "int \<Rightarrow> int \<Rightarrow> window \<Rightarrow> window" where
  "refresh windowLength now w =
     (if now - windowStart w \<ge> windowLength then \<lparr>count = 0, windowStart = now\<rparr> else w)"

text \<open>
  Modelled from the spec: the wait left in a window,
  \<open>windowLength - (now - windowStart)\<close>.
\<close>

definition remaining_wait :: "int \<Rightarrow> int \<Rightarrow> window \<Rightarrow> int" where
  "remaining_wait windowLength now w = windowLength - (now - windowStart w)"

text \<open>
  Modelled from the spec: the check of one bucket. If either window's count has
  reached its limit the check is denied, with the wait left in the most exhausted
  window (the largest remaining wait among the exhausted windows); otherwise both
  counts are incremented and the check is allowed. The resets persist either way.
\<close>

definition check_bucket :: "limits \<Rightarrow> int \<Rightarrow> RateBucket \<Rightarrow> decision \<times> RateBucket" where
  "check_bucket cfg now b =
     (let m = refresh (minute_length cfg) now (minute b);
          h = refresh (hour_length cfg) now (hour b);
          m_wait = remaining_wait (minute_length cfg) now m;
          h_wait = remaining_wait (hour_length cfg) now h
      in if count m \<ge> minute_limit cfg \<and> count h \<ge> hour_limit cfg
           then (Deny (max m_wait h_wait), \<lparr>minute = m, hour = h\<rparr>)
         else if count m \<ge> minute_limit cfg
           then (Deny m_wait, \<lparr>minute = m, hour = h\<rparr>)
         else if count h \<ge> hour_limit cfg
           then (Deny h_wait, \<lparr>minute = m, hour = h\<rparr>)
         else (Allow, \<lparr>minute = m\<lparr>count := count m + 1\<rparr>,
                       hour = h\<lparr>count := count h + 1\<rparr>\<rparr>))"

text \<open>
  Modelled from the spec: the specification does not say what bucket an identity has
  before its first check; here it gets one whose two windows are empty and start now.
\<close>

definition fresh_bucket :: "int \<Rightarrow> RateBucket" where
  "fresh_bucket now =
     \<lparr>minute = \<lparr>count = 0, windowStart = now\<rparr>, hour = \<lparr>count = 0, windowStart = now\<rparr>\<rparr>"

text \<open>
  Modelled from the spec: \<open>check(clientIdentity)\<close> on the store of buckets; only the
  bucket of the identity changes.
\<close>

definition check ::
  "limits \<Rightarrow> int \<Rightarrow> string \<Rightarrow> (string \<rightharpoonup> RateBucket) \<Rightarrow> decision \<times> (string \<rightharpoonup> RateBucket)" where
  "check cfg now clientIdentity st =
     (case check_bucket cfg now
             (case st clientIdentity of None \<Rightarrow> fresh_bucket now | Some b \<Rightarrow> b) of
        (d, b') \<Rightarrow> (d, st(clientIdentity \<mapsto> b')))"

text \<open>
  Modelled from the spec: successive checks of one identity at the given times, with
  their decisions in order.
\<close>

fun checks ::
  "limits \<Rightarrow> string \<Rightarrow> int list \<Rightarrow> (string \<rightharpoonup> RateBucket) \<Rightarrow>
     decision list \<times> (string \<rightharpoonup> RateBucket)" where
  "checks cfg clientIdentity [] st = ([], st)"
| "checks cfg clientIdentity (now # later) st =
     (case check cfg now clientIdentity st of
        (d, st') \<Rightarrow>
          (case checks cfg clientIdentity later st' of (ds, st'') \<Rightarrow> (d # ds, st'')))"

text \<open>
  The limits the documentation names for the free tier (10 requests per minute, 100 per
  hour), and a configuration with a tight hour window for concrete runs.
\<close>

definition free_tier :: limits where
  "free_tier = \<lparr>minute_limit = 10, minute_length = 60, hour_limit = 100, hour_length = 3600\<rparr>"

definition tight_hour :: limits where
  "tight_hour = \<lparr>minute_limit = 2, minute_length = 60, hour_limit = 4, hour_length = 3600\<rparr>"

text \<open>
  Modelled from the spec: the check of section 4.1 behind the interface the endpoint
  calls, \<open>is_allowed\<close>, which returns a flag and a message; the wait that the check
  computes has no place in that result.
\<close>

definition is_allowed_by_check ::
  "limits \<Rightarrow> int \<Rightarrow> string \<Rightarrow> (string \<rightharpoonup> RateBucket) \<Rightarrow> (bool \<times> string) \<times> (string \<rightharpoonup> RateBucket)" where
  "is_allowed_by_check cfg now client_ip st =
     (case check cfg now client_ip st of
        (Allow, st') \<Rightarrow> ((True, ''OK''), st')
      | (Deny wait, st') \<Rightarrow> ((False, ''Rate limit exceeded''), st'))"
text \<open>
  The bucket of an identity whose two windows both started at \<open>t0\<close> and have both
  counted \<open>k\<close> allowed checks since; a stub for the event stream of concrete runs.
\<close>

definition bucket_at :: "nat \<Rightarrow> int \<Rightarrow> RateBucket" where
  "bucket_at k t0 =
     \<lparr>minute = \<lparr>count = k, windowStart = t0\<rparr>, hour = \<lparr>count = k, windowStart = t0\<rparr>\<rparr>"

definition no_stream :: "unit \<Rightarrow> unit" where
  "no_stream request = ()"

section \<open>The intent router and the stages (sections 4.2 and 4.3 of the specification)\<close>

text \<open>
  Modelled from the spec: the intent classifier \<open>intent_classifier.py\<close> and the agents
  (\<open>chat_agent.py\<close>, \<open>designing_agent.py\<close>, \<open>coding_agent.py\<close>) are not among the
  sources; the pipeline above takes what they yield as parameters. What follows is the
  router of section 4.2 and the stages of section 4.3, in their words, starting with
  the two branches of the intent.
\<close>

datatype branch = Conversational | Generative

text \<open>
  Modelled from the spec: the kinds of error that section 7 surfaces as an in-stream
  error event.
\<close>

datatype error_kind = StageTimeout | StageUpstreamError

text \<open>
  Modelled from the spec: the event type of section 3, one constructor per variant, in
  its order. The first and the last variant are the two events that the pipeline
  yields itself, and they are as its code yields them: \<open>pipeline.completed\<close> has no
  field there, so the \<open>ok\<close> flag of section 3 is left out.
\<close>

datatype Event =
    PipelineStarted
  | IntentClassified branch
  | ContentDelta string
  | StagePhase string
  | PlanCompleted "string list"
  | PathStarted string
  | ArtifactDelta string string
  | PathCompleted string
  | Error error_kind string
  | PipelineCompleted

text \<open>
  Modelled from the spec: the external single-token text-generation call of the router
  answers with a label, fails or times out. The two recognized labels are those of the
  classifier prompt, \<open>chat\<close> and \<open>code\<close>. On any failure, timeout or other output the
  router fails closed to \<open>Conversational\<close>.
\<close>

datatype classifier_reply = Reply string | CallFailed | CallTimedOut

text \<open>
  Modelled from the spec: \<open>classify(messageText)\<close>, with the classifier call as a
  parameter.
\<close>

definition classify :: "(string \<Rightarrow> classifier_reply) \<Rightarrow> string \<Rightarrow> branch" where
  "classify call messageText =
     (case call messageText of
        Reply label \<Rightarrow>
          if label = ''code'' then Generative
          else if label = ''chat'' then Conversational
          else Conversational
      | CallFailed \<Rightarrow> Conversational
      | CallTimedOut \<Rightarrow> Conversational)"

text \<open>
  Modelled from the spec: a stage produces a finite ordered sequence of events and
  either ends or cannot proceed, with an error kind and a message. The conversational
  stage gives its content deltas; the planning stage its phases and then the planned
  paths; the generation stage, for one path, that path's artifact deltas. A stage that
  cannot proceed emits exactly one error event with its kind and message, and nothing
  after it.
\<close>

type_synonym failure = "error_kind \<times> string"

record collaborators =
  classifier_call :: "string \<Rightarrow> classifier_reply"
  conversational_stage :: "string \<Rightarrow> string list \<times> failure option"
  planning_stage :: "string \<Rightarrow> string list \<times> (failure + string list)"
  generation_stage :: "string \<Rightarrow> string \<Rightarrow> string list \<times> failure option"

text \<open>
  Modelled from the spec: the generation stage iterates the planned paths strictly
  sequentially: \<open>path.started\<close>, the deltas, \<open>path.completed\<close>, then the next path. When
  the generation of a path cannot proceed the stage emits its error event and stops:
  the open path is not completed and the paths after it are not started.
\<close>

fun generating :: "(string \<Rightarrow> string list \<times> failure option) \<Rightarrow> string list \<Rightarrow> Event list" where
  "generating gen [] = []"
| "generating gen (p # ps) =
     PathStarted p # map (ArtifactDelta p) (fst (gen p)) @
       (case snd (gen p) of
          None \<Rightarrow> PathCompleted p # generating gen ps
        | Some f \<Rightarrow> [Error (fst f) (snd f)])"

text \<open>
  Modelled from the spec: the conversational stage streams its content deltas, and its
  error event when it cannot proceed.
\<close>

definition conversing :: "string list \<times> failure option \<Rightarrow> Event list" where
  "conversing outcome =
     map ContentDelta (fst outcome) @
       (case snd outcome of None \<Rightarrow> [] | Some f \<Rightarrow> [Error (fst f) (snd f)])"

text \<open>
  Modelled from the spec: the planning stage emits only phase events while it runs and
  then one \<open>plan.completed\<close> with the ordered paths, after which the generation stage
  runs. When planning cannot proceed it emits its error event and no plan, and the
  generation stage does not run: the pipeline runs the coding agent only under
  \<open>if design_plan:\<close> and yields nothing in its place.
\<close>

definition planning ::
  "string list \<times> (failure + string list) \<Rightarrow> (string \<Rightarrow> string list \<times> failure option) \<Rightarrow> Event list" where
  "planning outcome gen =
     map StagePhase (fst outcome) @
       (case snd outcome of
          Inl f \<Rightarrow> [Error (fst f) (snd f)]
        | Inr paths \<Rightarrow> PlanCompleted paths # generating gen paths)"

text \<open>
  Modelled from the spec: the stream of one run over these stages. The stages and
  their events are those of the specification; their sequencing is that of the pipeline
  above: \<open>pipeline.started\<close>, the classification with \<open>intent.classified\<close> before any
  other stage event, the events of the stages of the branch as the stages emit them,
  and \<open>pipeline.completed\<close>, last on every path and without a flag, also after a stage
  that could not proceed. The pipeline's \<open>file.persisted\<close> events and database writes
  are in \<open>run_agent_pipeline\<close> and are not repeated here.
\<close>

definition run_pipeline :: "collaborators \<Rightarrow> string \<Rightarrow> Event list" where
  "run_pipeline col messageText =
     PipelineStarted #
     IntentClassified (classify (classifier_call col) messageText) #
     (case classify (classifier_call col) messageText of
        Conversational \<Rightarrow> conversing (conversational_stage col messageText)
      | Generative \<Rightarrow>
          planning (planning_stage col messageText) (generation_stage col messageText))
     @ [PipelineCompleted]"

text \<open>
  Modelled from the spec: observations of an output stream, in the terms of sections 3
  and 8: its error events, its plans, the paths it starts and the paths it completes,
  each in stream order.
\<close>

fun is_error :: "Event \<Rightarrow> bool" where
  "is_error (Error kind message) = True"
| "is_error e = False"









text \<open>
  Collaborators for concrete runs, after the scenarios of section 8: a classifier that
  knows three messages and times out on the others, a conversational stage, a planner
  with three paths and a generation stage.
\<close>

definition scenario_classifier :: "string \<Rightarrow> classifier_reply" where
  "scenario_classifier messageText =
     (if messageText = ''hello'' then Reply ''chat''
      else if messageText = ''build a counter widget'' then Reply ''code''
      else if messageText = ''what now'' then Reply ''maybe''
      else CallTimedOut)"

definition scenario_chat :: "string \<Rightarrow> string list \<times> failure option" where
  "scenario_chat messageText = ([''Hi'', '' there''], None)"

definition scenario_plan :: "string \<Rightarrow> string list \<times> (failure + string list)" where
  "scenario_plan messageText = ([''Analyzing request...''], Inr [''p1'', ''p2'', ''p3''])"

definition scenario_generate :: "string \<Rightarrow> string \<Rightarrow> string list \<times> failure option" where
  "scenario_generate messageText p = ([''a'', ''b''], None)"

definition scenario :: collaborators where
  "scenario =
     \<lparr>classifier_call = scenario_classifier, conversational_stage = scenario_chat,
      planning_stage = scenario_plan, generation_stage = scenario_generate\<rparr>"


text \<open>
  Modelled from the spec: a reply of the classifier call that is no recognized label:
  the call failed, timed out, or answered something other than the two labels.
\<close>

definition unrecognized :: "classifier_reply \<Rightarrow> bool" where
  "unrecognized reply =
     (case reply of
        Reply label \<Rightarrow> label \<noteq> ''chat'' \<and> label \<noteq> ''code''
      | CallFailed \<Rightarrow> True
      | CallTimedOut \<Rightarrow> True)"

section \<open>Properties of the hook\<close>

lemma apply_event_history:
  "prefix (conversationHistory (fst st))
          (conversationHistory (fst (apply_event now rid e st)))"
  by (cases st; cases e) simp_all

lemma on_event_history:
  "prefix (conversationHistory (fst st))
          (conversationHistory (fst (on_event now rid ev st)))"
  by (cases ev) (simp_all add: apply_event_history)

lemma process_line_history:
  "prefix (conversationHistory (fst st))
          (conversationHistory (fst (process_line parse now rid line st)))"
  by (simp add: process_line_def on_event_history split: option.split)

lemma process_lines_history:
  "prefix (conversationHistory (fst st))
          (conversationHistory (fst (foldl (\<lambda>st line. process_line parse now rid line st) st ls)))"
proof (induction ls arbitrary: st)
  case Nil
  show ?case by simp
next
  case (Cons line ls)
  have "prefix (conversationHistory (fst st))
          (conversationHistory (fst (process_line parse now rid line st)))"
    by (rule process_line_history)
  also have "prefix \<dots>
          (conversationHistory (fst (foldl (\<lambda>st line. process_line parse now rid line st)
             (process_line parse now rid line st) ls)))"
    by (rule Cons.IH)
  finally show ?case by simp
qed

lemma on_chunk_history:
  "prefix (conversationHistory (hook l)) (conversationHistory (hook (on_chunk parse rid l chunk)))"
  using process_lines_history [of "(hook l, accumulatedResponse l)"]
  by (simp add: on_chunk_def Let_def)

lemma chunks_history:
  "prefix (conversationHistory (hook l))
          (conversationHistory (hook (foldl (on_chunk parse rid) l cs)))"
proof (induction cs arbitrary: l)
  case Nil
  show ?case by simp
next
  case (Cons c cs)
  have "prefix (conversationHistory (hook l))
          (conversationHistory (hook (on_chunk parse rid l c)))"
    by (rule on_chunk_history)
  also have "prefix \<dots>
          (conversationHistory (hook (foldl (on_chunk parse rid) (on_chunk parse rid l c) cs)))"
    by (rule Cons.IH)
  finally show ?case by simp
qed

lemma try_stream_history:
  "prefix (conversationHistory s) (conversationHistory (try_stream parse net s))"
proof (cases net)
  case (Body t cs ended)
  have "prefix (conversationHistory s)
          (conversationHistory (hook (foldl (on_chunk parse (''response-'' @ dec t))
             \<lparr>hook = s, accumulatedResponse = [], buffer = []\<rparr> cs)))"
    using chunks_history [of "\<lparr>hook = s, accumulatedResponse = [], buffer = []\<rparr>"] by simp
  with Body show ?thesis by (simp add: try_stream_def Let_def)
qed (simp_all add: try_stream_def)



lemma code_chunk_appends:
  "get_or_empty (files (fst (apply_event now rid (Code_chunk text f) (s, acc)))) p
     = (if p = f then get_or_empty (files s) f @ text else get_or_empty (files s) p)"
  by (simp add: get_or_empty_def update_conv')

text \<open>
  Claim C9. After every call of \<open>sendMessage\<close> that returns, the flag \<open>isStreaming\<close> of
  the hook's state is false: whether \<open>fetch\<close> rejects, the response has no body, the
  body ends normally or a \<open>read()\<close> rejects, the \<open>finally\<close> block runs last and clears
  the flag.
\<close>

theorem sendMessage_clears_isStreaming:
  "isStreaming (sendMessage parse now message net s) = False"
  by (simp add: sendMessage_def)

text \<open>
  Claim C10. The conversation history is append-only across a call of \<open>sendMessage\<close>:
  the first state update, which does not depend on the network, appends the user's
  prompt to the history as it was; the history after the call starts with the old
  history followed by that prompt, whatever the network does; and when \<open>fetch\<close>
  rejects, the history after the call is exactly the old one followed by the prompt.
\<close>

theorem sendMessage_history_append_only:
  "conversationHistory (begin_send now message s)
     = conversationHistory s @ [user_prompt now message]
   \<and> prefix (conversationHistory s @ [user_prompt now message])
        (conversationHistory (sendMessage parse now message net s))
   \<and> conversationHistory (sendMessage parse now message Fetch_failed s)
        = conversationHistory s @ [user_prompt now message]"
proof -
  have first: "conversationHistory (begin_send now message s)
      = conversationHistory s @ [user_prompt now message]"
    by (simp add: begin_send_def)
  have "prefix (conversationHistory (begin_send now message s))
          (conversationHistory (try_stream parse net (begin_send now message s)))"
    by (rule try_stream_history)
  then have rest: "prefix (conversationHistory s @ [user_prompt now message])
          (conversationHistory (sendMessage parse now message net s))"
    by (simp add: first sendMessage_def)
  have failed: "conversationHistory (sendMessage parse now message Fetch_failed s)
      = conversationHistory s @ [user_prompt now message]"
    by (simp add: sendMessage_def try_stream_def first)
  from first rest failed show ?thesis by simp
qed

text \<open>
  Claim C8, as the code has it. The switch of the updater has no \<open>default\<close> case and
  the hook has no protocol-violation result: a decoded event whose discriminant is not
  one of the labels of the switch leaves the hook's state and the accumulated response
  exactly as they were, and so does the frame that carries it.
\<close>

theorem unmatched_event_ignored:
  "discriminant ev \<notin> set case_labels \<Longrightarrow>
     on_event now rid ev st = st \<and>
     (parse payload = Some ev \<longrightarrow>
        process_line parse now rid (''data: '' @ payload) st = st)"
proof -
  assume unmatched: "discriminant ev \<notin> set case_labels"
  have ignored: "on_event now rid ev st = st"
  proof (cases ev)
    case (Untyped d)
    then show ?thesis by simp
  next
    case (Typed e)
    with unmatched show ?thesis
      by (cases st; cases e) (simp_all add: case_labels_def)
  qed
  then show ?thesis
    by (simp add: process_line_def)
qed

theorem unmatched_event_ignored_witness:
  "discriminant (Untyped ''heartbeat'') \<notin> set case_labels \<and>
   on_event 0 [] (Untyped ''heartbeat'') (initialState, []) = (initialState, []) \<and>
   process_line (\<lambda>payload. Some (Untyped ''heartbeat'')) 0 [] (''data: '' @ ''{}'')
     (initialState, []) = (initialState, [])"
proof -
  have h: "discriminant (Untyped ''heartbeat'') \<notin> set case_labels"
    by (simp add: case_labels_def)
  show ?thesis
    using h unmatched_event_ignored [OF h, of 0 "[]" "(initialState, [])"
      "\<lambda>payload. Some (Untyped ''heartbeat'')" "''{}''"]
    by simp
qed

text \<open>
  The claim as the specification words it fails: the object \<open>{"event": "foo"}\<close>, whose
  discriminant is outside the union, changes nothing and records no error.
\<close>

theorem unrecognized_discriminant_dropped:
  "discriminant (Untyped ''foo'') \<notin> set agent_event_names \<and>
   on_event 0 [] (Untyped ''foo'') (initialState, []) = (initialState, []) \<and>
   error (fst (on_event 0 [] (Untyped ''foo'') (initialState, []))) = None"
  by (simp add: agent_event_names_def initialState_def)

section \<open>Properties of the capture and persistence\<close>














text \<open>
  A chunk whose \<open>file\<close> property is missing or empty is skipped by the guard
  \<open>if file_path:\<close>, so it belongs to no path and nothing is saved for it.
\<close>

lemma chunk_without_path_skipped:
  "capture fc [(''event'', ''code.chunk''), (''content'', text)] = fc \<and>
   capture fc (code_chunk [] text) = fc"
  by (simp add: capture_def code_chunk_def)

section \<open>Properties of the pipeline\<close>













section \<open>Properties of admission\<close>

lemma check_bucket_allow_iff:
  "fst (check_bucket cfg now b) = Allow \<longleftrightarrow>
     count (refresh (minute_length cfg) now (minute b)) < minute_limit cfg \<and>
     count (refresh (hour_length cfg) now (hour b)) < hour_limit cfg"
  by (simp add: check_bucket_def Let_def not_le)

lemma check_bucket_allow:
  assumes "k < minute_limit cfg" and "k < hour_limit cfg"
    and "t - t0 < minute_length cfg" and "t - t0 < hour_length cfg"
  shows "check_bucket cfg t (bucket_at k t0) = (Allow, bucket_at (Suc k) t0)"
  using assms by (simp add: check_bucket_def bucket_at_def refresh_def Let_def)

lemma check_bucket_deny:
  assumes "k = minute_limit cfg" and "k < hour_limit cfg"
    and "t - t0 < minute_length cfg" and "t - t0 < hour_length cfg"
  shows "check_bucket cfg t (bucket_at k t0)
           = (Deny (minute_length cfg - (t - t0)), bucket_at k t0)"
  using assms
  by (simp add: check_bucket_def bucket_at_def refresh_def remaining_wait_def Let_def)

lemma check_bucket_elapsed:
  assumes "0 < minute_limit cfg" and "k < hour_limit cfg"
    and "minute_length cfg \<le> t - t0"
  shows "fst (check_bucket cfg t (bucket_at k t0)) = Allow"
  using assms by (simp add: check_bucket_allow_iff bucket_at_def refresh_def)

lemma check_fresh:
  assumes "st c = None" and "0 < minute_limit cfg" and "0 < hour_limit cfg"
    and "0 < minute_length cfg" and "0 < hour_length cfg"
  shows "check cfg t0 c st = (Allow, st(c \<mapsto> bucket_at (Suc 0) t0))"
  using assms
  by (simp add: check_def check_bucket_def fresh_bucket_def bucket_at_def refresh_def Let_def)

lemma checks_append:
  "checks cfg c (xs @ ys) st =
     (case checks cfg c xs st of
        (ds, st') \<Rightarrow> (case checks cfg c ys st' of (ds', st'') \<Rightarrow> (ds @ ds', st'')))"
  by (induction xs arbitrary: st) (simp_all split: prod.splits)

lemma checks_allowed:
  assumes "st c = Some (bucket_at k t0)"
    and "\<forall>t \<in> set ts. t - t0 < minute_length cfg"
    and "k + length ts \<le> minute_limit cfg"
    and "minute_limit cfg < hour_limit cfg"
    and "minute_length cfg \<le> hour_length cfg"
  shows "checks cfg c ts st
           = (replicate (length ts) Allow, st(c \<mapsto> bucket_at (k + length ts) t0))"
  using assms
proof (induction ts arbitrary: k st)
  case Nil
  then show ?case by (simp add: fun_upd_idem)
next
  case (Cons t ts)
  have step: "check cfg t c st = (Allow, st(c \<mapsto> bucket_at (Suc k) t0))"
    using Cons.prems by (simp add: check_def check_bucket_allow)
  have "checks cfg c ts (st(c \<mapsto> bucket_at (Suc k) t0))
      = (replicate (length ts) Allow,
         (st(c \<mapsto> bucket_at (Suc k) t0))(c \<mapsto> bucket_at (Suc k + length ts) t0))"
    using Cons.prems by (intro Cons.IH) simp_all
  then have rest: "checks cfg c ts (st(c \<mapsto> bucket_at (Suc k) t0))
      = (replicate (length ts) Allow, st(c \<mapsto> bucket_at (Suc (k + length ts)) t0))"
    by simp
  have "checks cfg c (t # ts) st
      = (Allow # replicate (length ts) Allow, st(c \<mapsto> bucket_at (Suc (k + length ts)) t0))"
    by (simp only: checks.simps step rest prod.case)
  then show ?case
    by (simp add: fun_upd_def)
qed

text \<open>
  Claim C5, as the two-window algorithm has it. A check is allowed exactly when, after
  the elapsed windows are reset, both windows are below their limits. So for an identity
  without earlier requests, with a minute limit \<open>N > 0\<close> below the hour limit and a
  minute window no longer than the hour window: the first \<open>N\<close> checks inside the minute
  window (which starts with the first of them, at \<open>t0\<close>) are each allowed, the next check
  inside the same window is denied, with the time left in that window as the wait, and
  a check made once the minute window's length has elapsed since \<open>t0\<close> is allowed again.
\<close>

theorem fixed_window_admission:
  assumes "st c = None"
    and "0 < minute_limit cfg" and "minute_limit cfg < hour_limit cfg"
    and "0 < minute_length cfg" and "minute_length cfg \<le> hour_length cfg"
    and "Suc (length ts) = minute_limit cfg"
    and "\<forall>t \<in> set ts. t - t0 < minute_length cfg"
    and "td - t0 < minute_length cfg"
    and "minute_length cfg \<le> te - t0"
  shows "(fst (check_bucket cfg now b) = Allow \<longleftrightarrow>
            count (refresh (minute_length cfg) now (minute b)) < minute_limit cfg \<and>
            count (refresh (hour_length cfg) now (hour b)) < hour_limit cfg)
         \<and> fst (checks cfg c (t0 # ts @ [td, te]) st)
             = replicate (minute_limit cfg) Allow @ [Deny (minute_length cfg - (td - t0)), Allow]"
proof -
  let ?N = "minute_limit cfg"
  let ?st1 = "st(c \<mapsto> bucket_at (Suc 0) t0)"
  let ?stN = "st(c \<mapsto> bucket_at ?N t0)"
  have first: "check cfg t0 c st = (Allow, ?st1)"
    using assms by (intro check_fresh) simp_all
  have "checks cfg c ts ?st1
      = (replicate (length ts) Allow, ?st1(c \<mapsto> bucket_at (Suc 0 + length ts) t0))"
    using assms by (intro checks_allowed) simp_all
  with assms(6) have more: "checks cfg c ts ?st1 = (replicate (length ts) Allow, ?stN)"
    by simp
  have denied: "check cfg td c ?stN = (Deny (minute_length cfg - (td - t0)), ?stN)"
    using assms by (simp add: check_def check_bucket_deny)
  have again: "fst (check cfg te c ?stN) = Allow"
    using check_bucket_elapsed [of cfg ?N te t0] assms
    by (simp add: check_def case_prod_unfold)
  have "fst (checks cfg c (t0 # ts @ [td, te]) st)
      = Allow # replicate (length ts) Allow @ [Deny (minute_length cfg - (td - t0)), Allow]"
    using again by (simp add: first checks_append more denied case_prod_unfold)
  also have "\<dots> = replicate ?N Allow @ [Deny (minute_length cfg - (td - t0)), Allow]"
    using assms(6) [symmetric] by simp
  finally show ?thesis
    by (simp add: check_bucket_allow_iff)
qed

theorem fixed_window_admission_witness:
  "fst (checks free_tier ''203.0.113.7'' (0 # [1, 2, 3, 4, 5, 6, 7, 8, 9] @ [30, 60]) Map.empty)
     = replicate 10 Allow @ [Deny 30, Allow]"
proof -
  have "fst (checks free_tier ''203.0.113.7'' (0 # [1, 2, 3, 4, 5, 6, 7, 8, 9] @ [30, 60])
          Map.empty)
      = replicate (minute_limit free_tier) Allow
          @ [Deny (minute_length free_tier - (30 - 0)), Allow]"
    by (rule fixed_window_admission [THEN conjunct2]) (simp_all add: free_tier_def)
  then show ?thesis
    by (simp add: free_tier_def)
qed

text \<open>
  The claim as the specification words it, for any window, fails for this algorithm.
  With the free-tier limits the eleventh check inside the first minute is denied,
  although it is only the eleventh of the hundred checks the hour window allows. With
  two checks a minute and four an hour, the check at second 120 is denied although the
  minute window that started at second 60 has elapsed: the hour window is exhausted.
\<close>

theorem other_window_denies:
  "fst (checks free_tier ''203.0.113.7'' [0, 1, 2, 3, 4, 5, 6, 7, 8, 9, 10] Map.empty)
     = [Allow, Allow, Allow, Allow, Allow, Allow, Allow, Allow, Allow, Allow, Deny 50]
   \<and> fst (checks tight_hour ''203.0.113.7'' [0, 1, 2, 60, 61, 62, 120] Map.empty)
     = [Allow, Allow, Deny 58, Allow, Allow, Deny 3538, Deny 3480]"
  by (simp add: check_def check_bucket_def refresh_def remaining_wait_def fresh_bucket_def
      free_tier_def tight_hour_def Let_def)

section \<open>Properties of the endpoint\<close>

text \<open>
  Claim C6, as the code has it. Whenever the admission check denies, the response of
  the endpoint is the 429 response with \<open>retry_after = 60\<close>: a constant, whatever the
  identity, the time of the check, the start of either window and the window that is
  exhausted. The message of the limiter is passed on unchanged.
\<close>

theorem denied_response_retry_after:
  "\<not> fst (fst (is_allowed client_ip lim)) \<Longrightarrow>
     fst (agent_stream_endpoint is_allowed agent_event_stream request client_ip lim)
       = JSONResponse 429 ''Rate limit exceeded'' (snd (fst (is_allowed client_ip lim))) 60
     \<and> retry_after
         (fst (agent_stream_endpoint is_allowed agent_event_stream request client_ip lim)) = 60"
  by (simp add: agent_stream_endpoint_def case_prod_unfold)

theorem denied_response_retry_after_witness:
  "\<not> fst (fst (is_allowed_by_check tight_hour 120 ''203.0.113.7''
        (snd (checks tight_hour ''203.0.113.7'' [0, 1, 60, 61] Map.empty))))
   \<and> retry_after (fst (agent_stream_endpoint (is_allowed_by_check tight_hour 120) no_stream ()
        ''203.0.113.7'' (snd (checks tight_hour ''203.0.113.7'' [0, 1, 60, 61] Map.empty)))) = 60"
proof -
  have denied: "\<not> fst (fst (is_allowed_by_check tight_hour 120 ''203.0.113.7''
        (snd (checks tight_hour ''203.0.113.7'' [0, 1, 60, 61] Map.empty))))"
    by (simp add: is_allowed_by_check_def check_def check_bucket_def refresh_def
        remaining_wait_def fresh_bucket_def tight_hour_def Let_def)
  from denied denied_response_retry_after
      [of "is_allowed_by_check tight_hour 120" "''203.0.113.7''"
          "snd (checks tight_hour ''203.0.113.7'' [0, 1, 60, 61] Map.empty)" no_stream "()"]
  show ?thesis by blast
qed

text \<open>
  The claim as the specification words it fails on the code. After ten allowed checks
  at second 0 the check at second 30 is denied; the minute window is the exhausted one
  and the wait left in it is \<open>60 - (30 - 0) = 30\<close> seconds, which is what the check of
  section 4.1 computes, but the response of the endpoint carries 60.
\<close>

theorem retry_after_not_remaining_wait:
  "fst (check free_tier 30 ''203.0.113.7''
      (snd (checks free_tier ''203.0.113.7'' [0, 0, 0, 0, 0, 0, 0, 0, 0, 0] Map.empty)))
     = Deny 30
   \<and> retry_after (fst (agent_stream_endpoint (is_allowed_by_check free_tier 30) no_stream ()
        ''203.0.113.7''
        (snd (checks free_tier ''203.0.113.7'' [0, 0, 0, 0, 0, 0, 0, 0, 0, 0] Map.empty)))) = 60
   \<and> retry_after (fst (agent_stream_endpoint (is_allowed_by_check free_tier 30) no_stream ()
        ''203.0.113.7''
        (snd (checks free_tier ''203.0.113.7'' [0, 0, 0, 0, 0, 0, 0, 0, 0, 0] Map.empty))))
      \<noteq> remaining_wait (minute_length free_tier) 30 \<lparr>count = 10, windowStart = 0\<rparr>"
  by (simp add: agent_stream_endpoint_def is_allowed_by_check_def check_def check_bucket_def
      refresh_def remaining_wait_def fresh_bucket_def free_tier_def Let_def)

section \<open>Properties of the router and the stages\<close>


lemma content_no_error: "filter is_error (map ContentDelta texts @ es) = filter is_error es"
  by (induction texts) simp_all








text \<open>
  Claim C7. For every message the router returns one of the two branches. When the
  classifier call fails, times out or answers outside the two recognized labels, the
  router returns \<open>Conversational\<close>, and the run goes on as a conversational run: its
  stream is \<open>pipeline.started\<close>, \<open>intent.classified(Conversational)\<close>, the events of the
  conversational stage and \<open>pipeline.completed\<close>, and its only error event, if any, is
  the one of a failing conversational stage: the stream has no error event exactly when
  that stage ends normally. No error event and no failed run comes from the
  classification.
\<close>

theorem classification_fails_closed:
  assumes "unrecognized (classifier_call col messageText)"
  shows "(classify call text = Conversational \<or> classify call text = Generative)
       \<and> classify (classifier_call col) messageText = Conversational
       \<and> run_pipeline col messageText
           = PipelineStarted # IntentClassified Conversational #
               conversing (conversational_stage col messageText) @ [PipelineCompleted]
       \<and> filter is_error (run_pipeline col messageText)
           = (case snd (conversational_stage col messageText) of
                None \<Rightarrow> []
              | Some f \<Rightarrow> [Error (fst f) (snd f)])
       \<and> (filter is_error (run_pipeline col messageText) = []
            \<longleftrightarrow> snd (conversational_stage col messageText) = None)
       \<and> last (run_pipeline col messageText) = PipelineCompleted"
proof -
  have total: "classify call text = Conversational \<or> classify call text = Generative"
    by (cases "classify call text") simp_all
  from assms have closed: "classify (classifier_call col) messageText = Conversational"
    by (simp add: unrecognized_def classify_def split: classifier_reply.splits)
  then have run: "run_pipeline col messageText
      = PipelineStarted # IntentClassified Conversational #
          conversing (conversational_stage col messageText) @ [PipelineCompleted]"
    by (simp add: run_pipeline_def)
  have errors: "filter is_error (run_pipeline col messageText)
      = (case snd (conversational_stage col messageText) of
           None \<Rightarrow> []
         | Some f \<Rightarrow> [Error (fst f) (snd f)])"
    unfolding run
    by (cases "snd (conversational_stage col messageText)")
      (simp_all add: conversing_def content_no_error)
  have clean: "filter is_error (run_pipeline col messageText) = []
      \<longleftrightarrow> snd (conversational_stage col messageText) = None"
    unfolding errors
    by (cases "snd (conversational_stage col messageText)") simp_all
  have ends: "last (run_pipeline col messageText) = PipelineCompleted"
    unfolding run by simp
  from total closed run errors clean ends show ?thesis
    by blast
qed

theorem classification_fails_closed_witness:
  "unrecognized (classifier_call scenario ''what now'')
   \<and> unrecognized (classifier_call scenario ''zzz'')
   \<and> classify (classifier_call scenario) ''what now'' = Conversational
   \<and> classify (classifier_call scenario) ''zzz'' = Conversational
   \<and> run_pipeline scenario ''zzz''
       = [PipelineStarted, IntentClassified Conversational, ContentDelta ''Hi'',
          ContentDelta '' there'', PipelineCompleted]"
proof -
  have label: "unrecognized (classifier_call scenario ''what now'')"
    by (simp add: unrecognized_def scenario_def scenario_classifier_def)
  have timeout: "unrecognized (classifier_call scenario ''zzz'')"
    by (simp add: unrecognized_def scenario_def scenario_classifier_def)
  have stage: "conversing (conversational_stage scenario ''zzz'')
      = [ContentDelta ''Hi'', ContentDelta '' there'']"
    by (simp add: conversing_def scenario_def scenario_chat_def)
  from classification_fails_closed [OF label] classification_fails_closed [OF timeout]
    label timeout stage
  show ?thesis
    by simp
qed

end
